theory Spec2Isabelle
  imports Main
begin

section \<open>Python strings\<close>

text \<open>
  A Python \<open>str\<close> is modelled as a \<open>string\<close>. The strings the middleware reads come from
  the WSGI environment, whose characters are code points below 256, so one \<open>char\<close> is one
  character of the source string.
\<close>

text \<open>
  \<open>str.isspace\<close> on one character: the code points below 256 that Python counts as
  whitespace (tab to carriage return, the four separators 28 to 31, space, NEL and the
  no-break space).
\<close>

definition isspace :: "char \<Rightarrow> bool" where
  "isspace c = (of_char c \<in> {9, 10, 11, 12, 13, 28, 29, 30, 31, 32, 133, 160 :: nat})"

text \<open>\<open>s.strip()\<close>: whitespace removed at both ends.\<close>

definition str_strip :: "string \<Rightarrow> string" where
  "str_strip s = rev (dropWhile isspace (rev (dropWhile isspace s)))"

text \<open>\<open>s.split(sep)\<close> for a separator of one character; the result is never empty.\<close>

fun str_split :: "char \<Rightarrow> string \<Rightarrow> string list" where
  "str_split sep [] = [[]]"
| "str_split sep (c # cs) =
     (if c = sep then [] # str_split sep cs
      else (case str_split sep cs of
              [] \<Rightarrow> [[c]]
            | w # ws \<Rightarrow> (c # w) # ws))"

text \<open>\<open>sep.join(xs)\<close>.\<close>

fun str_join :: "string \<Rightarrow> string list \<Rightarrow> string" where
  "str_join sep [] = []"
| "str_join sep [x] = x"
| "str_join sep (x # y # ys) = x @ sep @ str_join sep (y # ys)"

text \<open>\<open>str(n)\<close> for an integer: decimal digits, with a minus sign below zero.\<close>

definition digit_char :: "nat \<Rightarrow> char" where
  "digit_char d = ''0123456789'' ! d"

function str_nat :: "nat \<Rightarrow> string" where
  "str_nat n = (if n < 10 then [digit_char n] else str_nat (n div 10) @ [digit_char (n mod 10)])"
  by pat_completeness auto
termination
  by (relation "measure id") auto

declare str_nat.simps [simp del]

definition str_int :: "int \<Rightarrow> string" where
  "str_int i = (if i < 0 then CHR ''-'' # str_nat (nat (- i)) else str_nat (nat i))"

section \<open>The request-logging middleware (\<open>middleware/middleware.py\<close>)\<close>

subsection \<open>Requests and responses\<close>

text \<open>
  The identifier of a user object (\<open>request.user.id\<close>): \<open>None\<close>, an integer or a string.
\<close>

datatype user_id = IdNone | IdInt int | IdStr string

record user =
  id_of :: user_id

text \<open>
  A request carries the \<open>META\<close> dictionary (header and transport fields, strings to
  strings) and the attribute \<open>user\<close>, which is \<open>None\<close> or a user object (user objects are
  truthy). A response carries its integer \<open>status_code\<close>.
\<close>

record request =
  META :: "string \<rightharpoonup> string"
  user :: "user option"

record response =
  status_code :: int

text \<open>One record handed to the logger \<open>app.request\<close>: the level and the message.\<close>

datatype log_level = INFO

type_synonym log_record = "log_level \<times> string"

subsection \<open>\<open>get_client_ip\<close>\<close>

definition get_client_ip :: "request \<Rightarrow> string \<Rightarrow> string" where
  "get_client_ip req default' =
     (let x_forwarded_for =
            (case META req ''HTTP_X_FORWARDED_FOR'' of
               None \<Rightarrow> ''''
             | Some v \<Rightarrow> (if v \<noteq> [] then v else ''''));
          ip_address =
            (if str_strip x_forwarded_for \<noteq> []
             then hd (str_split CHR '','' x_forwarded_for)
             else (case META req ''REMOTE_ADDR'' of
                     None \<Rightarrow> default'
                   | Some v \<Rightarrow> v))
      in str_strip ip_address)"

subsection \<open>\<open>LogRequestMiddleware\<close>\<close>

definition NO_VALUE_MARKER :: string where
  "NO_VALUE_MARKER = ''-''"

definition get_value :: "request \<Rightarrow> string \<Rightarrow> string" where
  "get_value req key = (case META req key of None \<Rightarrow> NO_VALUE_MARKER | Some v \<Rightarrow> v)"

text \<open>Truthiness of an identifier, as \<open>user_id or marker\<close> tests it.\<close>

fun id_truthy :: "user_id \<Rightarrow> bool" where
  "id_truthy IdNone = False"
| "id_truthy (IdInt i) = (i \<noteq> 0)"
| "id_truthy (IdStr s) = (s \<noteq> [])"

definition get_user_id :: "request \<Rightarrow> user_id" where
  "get_user_id req =
     (let uid = (case user req of None \<Rightarrow> IdNone | Some u \<Rightarrow> id_of u)
      in if id_truthy uid then uid else IdStr NO_VALUE_MARKER)"

fun str_id :: "user_id \<Rightarrow> string" where
  "str_id IdNone = ''None''"
| "str_id (IdInt i) = str_int i"
| "str_id (IdStr s) = s"

text \<open>The six fields that \<open>_log_request\<close> joins with a blank, in the order of the source.\<close>

definition log_fields :: "request \<Rightarrow> response option \<Rightarrow> string list" where
  \<open>log_fields req resp =
     (let client_ip = get_client_ip req NO_VALUE_MARKER;
          remote_addr = get_value req ''REMOTE_ADDR'';
          x_forwarded_for = get_value req ''HTTP_X_FORWARDED_FOR'';
          user_agent = get_value req ''HTTP_USER_AGENT'';
          method = get_value req ''REQUEST_METHOD'';
          path = get_value req ''PATH_INFO'';
          status = (case resp of None \<Rightarrow> 500 | Some r \<Rightarrow> status_code r);
          uid = get_user_id req
      in [client_ip,
          remote_addr @ '','' @ x_forwarded_for,
          ''"'' @ method @ '' '' @ path @ ''"'',
          str_id uid,
          str_int status,
          ''"'' @ user_agent @ ''"''])\<close>

definition log_request :: "request \<Rightarrow> response option \<Rightarrow> log_record list \<Rightarrow> log_record list" where
  "log_request req resp lg = lg @ [(INFO, str_join '' '' (log_fields req resp))]"

text \<open>
  \<open>__call__\<close>. The inner pipeline \<open>get_response\<close> is a parameter: it may change the
  request object it is given, and it either raises (\<open>Inl\<close>) or returns a response, which
  may be \<open>None\<close>. The result is the outcome handed to the caller and the log afterwards.
  The local \<open>response\<close> starts as \<open>None\<close> and is assigned only when the pipeline returns;
  the \<open>finally\<close> block logs on both paths, and an exception then goes on to the caller.
\<close>

definition LogRequestMiddleware_call :: "(request \<Rightarrow> request \<times> ('e + response option)) \<Rightarrow> request \<Rightarrow>
    log_record list \<Rightarrow> ('e + response option) \<times> log_record list" where
  "LogRequestMiddleware_call get_response req lg =
     (case get_response req of
        (req', Inl e) \<Rightarrow> (Inl e, log_request req' None lg)
      | (req', Inr response) \<Rightarrow> (Inr response, log_request req' response lg))"

section \<open>The configuration builder (\<open>manager.py\<close>)\<close>

subsection \<open>Python values and the store\<close>

text \<open>
  The values that occur in the logging configuration. The three dictionaries that a
  \<open>LogManager\<close> keeps in its attributes \<open>_config\<close>, \<open>_handlers\<close> and \<open>_loggers\<close> are
  written to after they are created and are handed out by reference, so they live in a
  store and are named by their address (\<open>PRef\<close>). The literals nested in them are written
  once and never changed by any method; they are kept as values.
\<close>

type_synonym addr = nat

datatype pyval =
    PNone
  | PBool bool
  | PInt int
  | PStr string
  | PList "pyval list"
  | PDict "(string \<times> pyval) list"
  | PRef addr

text \<open>A dictionary keeps its keys in the order of their first insertion.\<close>

type_synonym pydict = "(string \<times> pyval) list"

definition dict_keys :: "pydict \<Rightarrow> string list" where
  "dict_keys d = map fst d"

definition dict_get :: "pydict \<Rightarrow> string \<Rightarrow> pyval option" where
  "dict_get d k = map_of d k"

text \<open>\<open>d[k] = v\<close>: an existing key keeps its place and gets the new value, a new key goes last.\<close>

fun dict_set :: "pydict \<Rightarrow> string \<Rightarrow> pyval \<Rightarrow> pydict" where
  "dict_set [] k v = [(k, v)]"
| "dict_set ((k', v') # d) k v =
     (if k' = k then (k, v) # d else (k', v') # dict_set d k v)"

text \<open>The calls made to the operating system, in order.\<close>

datatype os_call = PathExists string | MakeDirs string

datatype error = OSError string | TypeError

text \<open>
  The file system is outside the program: its state is any type \<open>'fs\<close>, and
  \<open>os.path.exists\<close> and \<open>os.makedirs\<close> are parameters. \<open>makedirs\<close> raises or returns the
  file system with the directory made.
\<close>

record 'fs os_api =
  path_exists :: "'fs \<Rightarrow> string \<Rightarrow> bool"
  makedirs :: "'fs \<Rightarrow> string \<Rightarrow> error + 'fs"

record 'fs world =
  heap :: "addr \<Rightarrow> pydict"
  nxt :: addr
  fs :: 'fs
  os_calls :: "os_call list"

text \<open>A dictionary display makes a new object, at the next free address.\<close>

definition alloc :: "pydict \<Rightarrow> 'fs world \<Rightarrow> addr \<times> 'fs world" where
  "alloc d w = (nxt w, w\<lparr>heap := (heap w)(nxt w := d), nxt := Suc (nxt w)\<rparr>)"

text \<open>\<open>obj[k] = v\<close> on the dictionary at address \<open>a\<close>.\<close>

definition setitem :: "addr \<Rightarrow> string \<Rightarrow> pyval \<Rightarrow> 'fs world \<Rightarrow> 'fs world" where
  "setitem a k v w = w\<lparr>heap := (heap w)(a := dict_set (heap w a) k v)\<rparr>"

text \<open>The dictionary a value stands for: the object at a reference, or the literal.\<close>

fun deref :: "(addr \<Rightarrow> pydict) \<Rightarrow> pyval \<Rightarrow> pydict" where
  "deref h (PRef a) = h a"
| "deref h (PDict d) = d"
| "deref h v = []"

text \<open>Truthiness of an optional string: \<open>None\<close> and the empty string are false.\<close>

fun str_truthy :: "string option \<Rightarrow> bool" where
  "str_truthy None = False"
| "str_truthy (Some s) = (s \<noteq> [])"

fun opt_str :: "string option \<Rightarrow> pyval" where
  "opt_str None = PNone"
| "opt_str (Some s) = PStr s"

text \<open>\<open>os.path.join\<close> of two components (POSIX).\<close>

definition os_path_join :: "string \<Rightarrow> string \<Rightarrow> string" where
  "os_path_join a b =
     (if b \<noteq> [] \<and> hd b = CHR ''/'' then b
      else if a = [] \<or> last a = CHR ''/'' then a @ b
      else a @ ''/'' @ b)"

subsection \<open>\<open>LogManager\<close>\<close>

text \<open>
  The attributes of an instance. \<open>__init__\<close> calls the two handler methods before it
  assigns \<open>_loggers\<close>, so these methods are typed on the attributes assigned by then, and
  the full instance extends them by \<open>_loggers\<close>. The level and the two destinations may
  be \<open>None\<close> (\<open>DefaultLogManager\<close> defaults them so).
\<close>

record LogManager_attrs =
  self_app_name :: string
  self_log_dir :: "string option"
  self_log_group :: "string option"
  self_default_log_level :: "string option"
  self_config :: addr
  self_handlers :: addr

record LogManager = LogManager_attrs +
  self_loggers :: addr

definition initial_config :: pydict where
  "initial_config =
     [(''version'', PInt 1),
      (''disable_existing_loggers'', PBool False),
      (''formatters'', PDict
         [(''default'', PDict
             [(''format'', PStr ''%(levelname)s [%(asctime)s] %(message)s'')]),
          (''basic'', PDict
             [(''format'', PStr (''%(asctime)s %(levelname)s %(processName)s %(name)s '' @
                                ''%(message)s''))]),
          (''full'', PDict
             [(''format'', PStr (''%(asctime)s %(levelname)s %(processName)s %(name)s  '' @
                                ''%(filename)s:%(lineno)d %(message)s''))]),
          (''db'', PDict
             [(''format'', PStr (''[%(asctime)s]'' @ [CHR 0x0A] @ ''%(message)s'' @ [CHR 0x0A]))])]),
      (''handlers'', PDict []),
      (''loggers'', PDict [])]"

definition add_file_handler ::
    "'fs os_api \<Rightarrow> 'a LogManager_attrs_scheme \<Rightarrow> string \<Rightarrow> 'fs world \<Rightarrow> error + 'fs world" where
  "add_file_handler os self formatter w =
     (case self_log_dir self of
        None \<Rightarrow> Inl TypeError
      | Some dir \<Rightarrow>
          (let w1 = w\<lparr>os_calls := os_calls w @ [PathExists dir]\<rparr>;
               made =
                 (if \<not> path_exists os (fs w1) dir
                  then (case makedirs os (fs w1) dir of
                          Inl e \<Rightarrow> Inl e
                        | Inr fs' \<Rightarrow> Inr (w1\<lparr>fs := fs', os_calls := os_calls w1 @ [MakeDirs dir]\<rparr>))
                  else Inr w1)
           in (case made of
                 Inl e \<Rightarrow> Inl e
               | Inr w2 \<Rightarrow>
                   Inr (setitem (self_handlers self) ''file''
                          (PDict
                             [(''class'', PStr ''logging.handlers.TimedRotatingFileHandler''),
                              (''formatter'', PStr formatter),
                              (''filename'', PStr (os_path_join dir (self_app_name self @ ''.log''))),
                              (''when'', PStr ''midnight'')])
                          w2))))"

definition add_cloudwatch_handler ::
    "'a LogManager_attrs_scheme \<Rightarrow> string \<Rightarrow> 'fs world \<Rightarrow> 'fs world" where
  "add_cloudwatch_handler self formatter w =
     setitem (self_handlers self) ''cloudwatch''
       (PDict
          [(''class'', PStr ''watchtower.CloudWatchLogHandler''),
           (''formatter'', PStr formatter),
           (''log_group'', opt_str (self_log_group self)),
           (''stream_name'', PStr (self_app_name self @ ''-{strftime:%Y-%m-%d}'')),
           (''use_queues'', PBool True),
           (''create_log_group'', PBool False)])
       w"

text \<open>\<open>__init__\<close>: raises what \<open>os.makedirs\<close> raises, or returns the instance.\<close>

definition LogManager_init ::
    "'fs os_api \<Rightarrow> string \<Rightarrow> string option \<Rightarrow> string option \<Rightarrow> string option \<Rightarrow> 'fs world
      \<Rightarrow> error + (LogManager \<times> 'fs world)" where
  "LogManager_init os app_name log_level log_group log_dir w =
     (let (c, w1) = alloc initial_config w;
          (h, w2) = alloc
                      [(''console'', PDict
                          [(''class'', PStr ''logging.StreamHandler''),
                           (''formatter'', PStr ''basic'')])]
                      w1;
          self = \<lparr>self_app_name = app_name, self_log_dir = log_dir,
                  self_log_group = log_group, self_default_log_level = log_level,
                  self_config = c, self_handlers = h\<rparr>
      in (case (if str_truthy log_dir then add_file_handler os self ''full'' w2 else Inr w2) of
            Inl e \<Rightarrow> Inl e
          | Inr w3 \<Rightarrow>
              (let w4 = (if str_truthy log_group then add_cloudwatch_handler self ''full'' w3
                         else w3);
                   (l, w5) = alloc [] w4
               in Inr (\<lparr>self_app_name = app_name, self_log_dir = log_dir,
                         self_log_group = log_group, self_default_log_level = log_level,
                         self_config = c, self_handlers = h, self_loggers = l\<rparr>, w5))))"

text \<open>
  The property \<open>config\<close>: the local \<open>config\<close> is the object \<open>_config\<close> itself; two of its
  entries are assigned and the same object is returned.
\<close>

definition config :: "LogManager \<Rightarrow> 'fs world \<Rightarrow> pyval \<times> 'fs world" where
  "config self w =
     (let config = self_config self;
          w1 = setitem config ''handlers'' (PRef (self_handlers self)) w;
          w2 = setitem config ''loggers'' (PRef (self_loggers self)) w1
      in (PRef config, w2))"

text \<open>\<open>add_logger\<close>; \<open>level\<close> defaults to \<open>None\<close> and \<open>propagate\<close> to \<open>False\<close>.\<close>

definition add_logger ::
    "LogManager \<Rightarrow> string \<Rightarrow> string option \<Rightarrow> pyval \<Rightarrow> 'fs world \<Rightarrow> 'fs world" where
  "add_logger self logger level propagate w =
     setitem (self_loggers self) logger
       (PDict
          [(''propagate'', propagate),
           (''handlers'', PList (map PStr (dict_keys (heap w (self_handlers self))))),
           (''level'', opt_str (if str_truthy level then level else self_default_log_level self))])
       w"

subsection \<open>\<open>DefaultLogManager\<close>\<close>

definition add_loggers :: "LogManager \<Rightarrow> string list \<Rightarrow> 'fs world \<Rightarrow> 'fs world" where
  "add_loggers self loggers w =
     fold (\<lambda>logger. add_logger self logger None (PBool False)) loggers w"

definition default_loggers :: "string list" where
  "default_loggers =
     [''django.server'', ''django.request'',
      ''django.security.*'', ''django.db'',
      ''celery'', ''celery.worker'', ''celery.app'',
      ''app'']"

definition DefaultLogManager_init ::
    "'fs os_api \<Rightarrow> string \<Rightarrow> string option \<Rightarrow> string option \<Rightarrow> string option
      \<Rightarrow> string list option \<Rightarrow> 'fs world \<Rightarrow> error + (LogManager \<times> 'fs world)" where
  "DefaultLogManager_init os app_name log_level log_group log_dir loggers w =
     (case LogManager_init os app_name log_level log_group log_dir w of
        Inl e \<Rightarrow> Inl e
      | Inr (self, w1) \<Rightarrow>
          (let w2 = add_loggers self default_loggers w1
           in (case loggers of
                 None \<Rightarrow> Inr (self, w2)
               | Some ls \<Rightarrow> Inr (self, if ls \<noteq> [] then add_loggers self ls w2 else w2))))"

subsection \<open>Sequences of calls on an instance\<close>

text \<open>
  The public operations of an instance after its construction: \<open>add_logger\<close> with its
  three arguments, and a read of \<open>config\<close> (whose result is dropped here).
\<close>

datatype api_call = AddLogger string "string option" pyval | ReadConfig

fun do_call :: "LogManager \<Rightarrow> api_call \<Rightarrow> 'fs world \<Rightarrow> 'fs world" where
  "do_call self (AddLogger logger level propagate) w = add_logger self logger level propagate w"
| "do_call self ReadConfig w = snd (config self w)"

definition do_calls :: "LogManager \<Rightarrow> api_call list \<Rightarrow> 'fs world \<Rightarrow> 'fs world" where
  "do_calls self cs w = fold (do_call self) cs w"

text \<open>
  What a reader of a configuration sees: the handler mapping, the route mapping and the
  formatter mapping reached from the configuration object \<open>c\<close> in the store \<open>h\<close>.
\<close>

definition config_entry :: "(addr \<Rightarrow> pydict) \<Rightarrow> pyval \<Rightarrow> string \<Rightarrow> pydict" where
  "config_entry h c k = (case dict_get (deref h c) k of None \<Rightarrow> [] | Some v \<Rightarrow> deref h v)"

text \<open>The handler names that a route lists, and the formatter name that a handler gives.\<close>

fun route_handlers :: "pyval \<Rightarrow> string list option" where
  "route_handlers (PDict r) =
     (case dict_get r ''handlers'' of
        Some (PList hs) \<Rightarrow> Some (concat (map (\<lambda>v. case v of PStr s \<Rightarrow> [s] | _ \<Rightarrow> []) hs))
      | _ \<Rightarrow> None)"
| "route_handlers v = None"

fun handler_formatter :: "pyval \<Rightarrow> string option" where
  "handler_formatter (PDict d) =
     (case dict_get d ''formatter'' of Some (PStr f) \<Rightarrow> Some f | _ \<Rightarrow> None)"
| "handler_formatter v = None"

text \<open>
  The cross-reference check on a configuration: every route lists handler names, each of
  them a key of the handler mapping, and every handler names a formatter that is a key
  of the formatter mapping.
\<close>

definition routes_ok :: "pydict \<Rightarrow> pydict \<Rightarrow> bool" where
  "routes_ok handlers loggers =
     list_all (\<lambda>(name, route).
        case route_handlers route of
          None \<Rightarrow> False
        | Some hs \<Rightarrow> list_all (\<lambda>hn. hn \<in> set (dict_keys handlers)) hs) loggers"

definition handlers_ok :: "pydict \<Rightarrow> pydict \<Rightarrow> bool" where
  "handlers_ok formatters handlers =
     list_all (\<lambda>(name, handler).
        case handler_formatter handler of
          None \<Rightarrow> False
        | Some f \<Rightarrow> f \<in> set (dict_keys formatters)) handlers"

definition xrefs_ok :: "(addr \<Rightarrow> pydict) \<Rightarrow> pyval \<Rightarrow> bool" where
  "xrefs_ok h c =
     (routes_ok (config_entry h c ''handlers'') (config_entry h c ''loggers'')
      \<and> handlers_ok (config_entry h c ''formatters'') (config_entry h c ''handlers''))"

text \<open>The handler names of a constructed instance, or the error of the construction.\<close>

definition handler_names :: "error + (LogManager \<times> 'fs world) \<Rightarrow> error + string list" where
  "handler_names r =
     (case r of
        Inl e \<Rightarrow> Inl e
      | Inr (self, w) \<Rightarrow> Inr (dict_keys (heap w (self_handlers self))))"

subsection \<open>A file system for examples\<close>

text \<open>
  The directories that exist, as a list; making a directory that exists raises.
\<close>

definition dirs_os :: "string list os_api" where
  "dirs_os =
     \<lparr>path_exists = (\<lambda>ds p. p \<in> set ds),
      makedirs = (\<lambda>ds p. if p \<in> set ds then Inl (OSError p) else Inr (p # ds))\<rparr>"

definition empty_world :: "string list world" where
  "empty_world = \<lparr>heap = (\<lambda>a. []), nxt = 0, fs = [], os_calls = []\<rparr>"

text \<open>
  The instance of the scenario \<open>appName = "svc"\<close>, \<open>logDir = "/var/log/svc"\<close>, no log group,
  built in an empty store on a file system without directories.
\<close>

definition example_self :: LogManager where
  "example_self =
     fst (projr (LogManager_init dirs_os ''svc'' (Some ''INFO'') None (Some ''/var/log/svc'')
                   empty_world))"

definition example_world :: "string list world" where
  "example_world =
     snd (projr (LogManager_init dirs_os ''svc'' (Some ''INFO'') None (Some ''/var/log/svc'')
                   empty_world))"

section \<open>Properties of the middleware\<close>

subsection \<open>String helpers\<close>

lemma str_split_nonempty: "str_split sep s \<noteq> []"
  by (induction s) (auto split: list.splits)

text \<open>The first piece of a split is the text before the first separator.\<close>

lemma hd_str_split: "hd (str_split sep s) = takeWhile (\<lambda>c. c \<noteq> sep) s"
  by (induction s) (auto split: list.splits simp: str_split_nonempty)

lemma str_strip_Nil: "str_strip [] = []"
  by (simp add: str_strip_def)

lemma str_int_500: "str_int 500 = ''500''"
  by code_simp

lemma str_int_200: "str_int 200 = ''200''"
  by code_simp

subsection \<open>Client address\<close>

text \<open>
  Claim C2, as the code has it. \<open>get_client_ip\<close> returns the text of the
  \<open>X-Forwarded-For\<close> header before its first comma, trimmed, when the header is present
  and not blank; otherwise the remote address when present, otherwise the default, and
  in both of these cases the value is trimmed as well: the final \<open>strip()\<close> of the
  function is applied on every path.
\<close>

theorem get_client_ip_cases:
  "get_client_ip req d =
     (case META req ''HTTP_X_FORWARDED_FOR'' of
        Some x \<Rightarrow>
          (if str_strip x \<noteq> [] then str_strip (takeWhile (\<lambda>c. c \<noteq> CHR '','') x)
           else str_strip (case META req ''REMOTE_ADDR'' of Some a \<Rightarrow> a | None \<Rightarrow> d))
      | None \<Rightarrow> str_strip (case META req ''REMOTE_ADDR'' of Some a \<Rightarrow> a | None \<Rightarrow> d))"
  by (simp add: get_client_ip_def hd_str_split str_strip_Nil split: option.splits)

text \<open>
  Claim C2 as stated says that without the header the remote address itself is returned,
  and without both the default itself. With a remote address \<open>" 10.0.0.5"\<close> the function
  returns \<open>"10.0.0.5"\<close>, and with an empty \<open>META\<close> and the default \<open>"n/a "\<close> it returns
  \<open>"n/a"\<close>: neither is the value the claim names.
\<close>

theorem get_client_ip_untrimmed_counterexample:
  "get_client_ip \<lparr>META = [''REMOTE_ADDR'' \<mapsto> '' 10.0.0.5''], user = None\<rparr> ''-'' \<noteq> '' 10.0.0.5''
   \<and> get_client_ip \<lparr>META = [''REMOTE_ADDR'' \<mapsto> '' 10.0.0.5''], user = None\<rparr> ''-'' = ''10.0.0.5''
   \<and> get_client_ip \<lparr>META = Map.empty, user = None\<rparr> ''n/a '' \<noteq> ''n/a ''
   \<and> get_client_ip \<lparr>META = Map.empty, user = None\<rparr> ''n/a '' = ''n/a''"
  by (simp add: get_client_ip_def str_strip_def isspace_def)

text \<open>
  Claim C10. When the \<open>X-Forwarded-For\<close> header is not blank but its part before the
  first comma is, \<open>get_client_ip\<close> returns the empty string, whatever the remote address
  and the default are.
\<close>

theorem get_client_ip_blank_first_hop:
  "META req ''HTTP_X_FORWARDED_FOR'' = Some x \<Longrightarrow> str_strip x \<noteq> [] \<Longrightarrow>
   str_strip (takeWhile (\<lambda>c. c \<noteq> CHR '','') x) = [] \<Longrightarrow>
   get_client_ip req d = []"
  by (auto simp add: get_client_ip_def hd_str_split str_strip_Nil)

text \<open>The header \<open>" ,5.6.7.8"\<close>, with a remote address and a default that are not used.\<close>

theorem get_client_ip_blank_first_hop_witness:
  "get_client_ip
     \<lparr>META = [''HTTP_X_FORWARDED_FOR'' \<mapsto> '' ,5.6.7.8'', ''REMOTE_ADDR'' \<mapsto> ''9.9.9.9''],
      user = None\<rparr> ''-'' = []"
  using get_client_ip_blank_first_hop
    [of "\<lparr>META = [''HTTP_X_FORWARDED_FOR'' \<mapsto> '' ,5.6.7.8'', ''REMOTE_ADDR'' \<mapsto> ''9.9.9.9''],
      user = None\<rparr>" "'' ,5.6.7.8''" "''-''"]
  by (simp add: str_strip_def isspace_def)

subsection \<open>The log line\<close>

text \<open>
  Claim C8. The line is the six fields in the order client address, remote address and
  forwarded header joined by a comma, quoted method and path, user identifier, status
  code, quoted user agent, with one blank between fields; a \<open>META\<close> key that is absent
  and a user that is \<open>None\<close> or has no identifier are written \<open>-\<close>. For the request of
  the scenario (no forwarded header, remote address \<open>10.0.0.5\<close>, \<open>GET /health\<close>, no user,
  status 200) the one record logged is \<open>10.0.0.5 10.0.0.5,- "GET /health" - 200 "-"\<close>.
\<close>

theorem log_line_format:
  \<open>str_join '' '' (log_fields req resp) =
     get_client_ip req ''-'' @ '' '' @
     get_value req ''REMOTE_ADDR'' @ '','' @ get_value req ''HTTP_X_FORWARDED_FOR'' @ '' "'' @
     get_value req ''REQUEST_METHOD'' @ '' '' @ get_value req ''PATH_INFO'' @ ''" '' @
     str_id (get_user_id req) @ '' '' @
     str_int (case resp of None \<Rightarrow> 500 | Some r \<Rightarrow> status_code r) @ '' "'' @
     get_value req ''HTTP_USER_AGENT'' @ ''"''
   \<and> get_value (req\<lparr>META := (META req)(k := None)\<rparr>) k = ''-''
   \<and> str_id (get_user_id (req\<lparr>user := None\<rparr>)) = ''-''
   \<and> str_id (get_user_id (req\<lparr>user := Some \<lparr>id_of = IdNone\<rparr>\<rparr>)) = ''-''
   \<and> log_request
        \<lparr>META = [''REMOTE_ADDR'' \<mapsto> ''10.0.0.5'', ''REQUEST_METHOD'' \<mapsto> ''GET'',
                 ''PATH_INFO'' \<mapsto> ''/health''],
         user = None\<rparr>
        (Some \<lparr>status_code = 200\<rparr>) []
      = [(INFO, ''10.0.0.5 10.0.0.5,- "GET /health" - 200 "-"'')]\<close>
proof (intro conjI)
  show \<open>log_request
        \<lparr>META = [''REMOTE_ADDR'' \<mapsto> ''10.0.0.5'', ''REQUEST_METHOD'' \<mapsto> ''GET'',
                 ''PATH_INFO'' \<mapsto> ''/health''],
         user = None\<rparr>
        (Some \<lparr>status_code = 200\<rparr>) []
      = [(INFO, ''10.0.0.5 10.0.0.5,- "GET /health" - 200 "-"'')]\<close>
    by (simp add: log_request_def log_fields_def get_client_ip_def get_value_def get_user_id_def
        NO_VALUE_MARKER_def str_strip_def isspace_def str_int_200)
qed (simp_all add: log_fields_def get_value_def get_user_id_def NO_VALUE_MARKER_def)

subsection \<open>One record for every request\<close>

text \<open>
  Claim C3. Every call of the middleware appends exactly one record to the log. When the
  inner pipeline raises, the caller gets the same exception, the record is built with no
  response, and its status field (the fifth of the six fields) is \<open>500\<close>. When the
  pipeline returns, the caller gets what it returned.
\<close>

theorem call_logs_once:
  "(\<exists>line. snd (LogRequestMiddleware_call get_response req lg) = lg @ [(INFO, line)])
   \<and> (\<forall>req' e. get_response req = (req', Inl e) \<longrightarrow>
         LogRequestMiddleware_call get_response req lg
           = (Inl e, lg @ [(INFO, str_join '' '' (log_fields req' None))])
         \<and> log_fields req' None ! 4 = ''500'')
   \<and> (\<forall>req' r. get_response req = (req', Inr r) \<longrightarrow>
         LogRequestMiddleware_call get_response req lg
           = (Inr r, lg @ [(INFO, str_join '' '' (log_fields req' r))]))"
proof (intro conjI allI impI)
  show "\<exists>line. snd (LogRequestMiddleware_call get_response req lg) = lg @ [(INFO, line)]"
    by (cases "get_response req")
       (auto simp: LogRequestMiddleware_call_def log_request_def split: sum.splits)
next
  fix req' e assume "get_response req = (req', Inl e)"
  then show "LogRequestMiddleware_call get_response req lg
           = (Inl e, lg @ [(INFO, str_join '' '' (log_fields req' None))])"
    by (simp add: LogRequestMiddleware_call_def log_request_def)
next
  fix req' :: request
  show "log_fields req' None ! 4 = ''500''"
    by (simp add: log_fields_def str_int_500)
next
  fix req' r assume "get_response req = (req', Inr r)"
  then show "LogRequestMiddleware_call get_response req lg
           = (Inr r, lg @ [(INFO, str_join '' '' (log_fields req' r))])"
    by (simp add: LogRequestMiddleware_call_def log_request_def)
qed

text \<open>A pipeline that raises on the request of the scenario above.\<close>

theorem call_logs_once_witness:
  \<open>LogRequestMiddleware_call (\<lambda>r. (r, Inl ''boom''))
     \<lparr>META = [''REMOTE_ADDR'' \<mapsto> ''10.0.0.5'', ''REQUEST_METHOD'' \<mapsto> ''GET'',
              ''PATH_INFO'' \<mapsto> ''/health''],
      user = None\<rparr> []
   = (Inl ''boom'', [(INFO, ''10.0.0.5 10.0.0.5,- "GET /health" - 500 "-"'')])\<close>
  using call_logs_once
    [of "\<lambda>r. (r, Inl ''boom'')"
        "\<lparr>META = [''REMOTE_ADDR'' \<mapsto> ''10.0.0.5'', ''REQUEST_METHOD'' \<mapsto> ''GET'',
              ''PATH_INFO'' \<mapsto> ''/health''],
      user = None\<rparr>" "[]"]
  by (simp add: log_fields_def get_client_ip_def get_value_def get_user_id_def
        NO_VALUE_MARKER_def str_strip_def isspace_def str_int_500)

section \<open>Properties of the configuration builder\<close>

subsection \<open>Dictionaries\<close>

lemma dict_keys_dict_set:
  "dict_keys (dict_set d k v) = (if k \<in> set (dict_keys d) then dict_keys d else dict_keys d @ [k])"
  by (induction d) (force simp: dict_keys_def)+

lemma handlers_ok_dict_set:
  "handlers_ok F d \<Longrightarrow> handler_formatter v = Some f \<Longrightarrow> f \<in> set (dict_keys F) \<Longrightarrow>
   handlers_ok F (dict_set d k v)"
  by (induction d) (auto simp: handlers_ok_def)

lemma add_file_handler_Inr:
  assumes "add_file_handler os self f w = Inr w'"
  shows "nxt w' = nxt w"
    and "a \<noteq> self_handlers self \<Longrightarrow> heap w' a = heap w a"
    and "dict_keys (heap w' (self_handlers self))
           = dict_keys (dict_set (heap w (self_handlers self)) ''file'' PNone)"
    and "handlers_ok F (heap w (self_handlers self)) \<Longrightarrow> f \<in> set (dict_keys F) \<Longrightarrow>
         handlers_ok F (heap w' (self_handlers self))"
  using assms
  by (auto simp: add_file_handler_def setitem_def Let_def dict_get_def dict_keys_dict_set
      intro!: handlers_ok_dict_set
      split: option.splits sum.splits if_splits)

lemma add_cloudwatch_handler_props:
  shows "nxt (add_cloudwatch_handler self f w) = nxt w"
    and "fs (add_cloudwatch_handler self f w) = fs w"
    and "os_calls (add_cloudwatch_handler self f w) = os_calls w"
    and "a \<noteq> self_handlers self \<Longrightarrow> heap (add_cloudwatch_handler self f w) a = heap w a"
    and "dict_keys (heap (add_cloudwatch_handler self f w) (self_handlers self))
           = dict_keys (dict_set (heap w (self_handlers self)) ''cloudwatch'' PNone)"
    and "handlers_ok F (heap w (self_handlers self)) \<Longrightarrow> f \<in> set (dict_keys F) \<Longrightarrow>
         handlers_ok F (heap (add_cloudwatch_handler self f w) (self_handlers self))"
  by (auto simp: add_cloudwatch_handler_def setitem_def dict_get_def dict_keys_dict_set
      intro!: handlers_ok_dict_set)


lemma initial_config_formatters:
  "dict_keys (deref h (the (dict_get initial_config ''formatters'')))
     = [''default'', ''basic'', ''full'', ''db'']"
  by (simp add: initial_config_def dict_get_def dict_keys_def)

lemma init_result:
  assumes "LogManager_init os app lvl grp dir w = Inr (self, w')"
  shows "self = \<lparr>self_app_name = app, self_log_dir = dir, self_log_group = grp,
                 self_default_log_level = lvl, self_config = nxt w,
                 self_handlers = Suc (nxt w), self_loggers = Suc (Suc (nxt w))\<rparr>"
    and "nxt w' = Suc (Suc (Suc (nxt w)))"
    and "heap w' (nxt w) = initial_config"
    and "heap w' (Suc (Suc (nxt w))) = []"
    and "dict_keys (heap w' (Suc (nxt w))) =
           [''console''] @ (if str_truthy dir then [''file''] else [])
             @ (if str_truthy grp then [''cloudwatch''] else [])"
    and "handlers_ok (config_entry (heap w') (PRef (nxt w)) ''formatters'') (heap w' (Suc (nxt w)))"
proof -
  define c where "c = nxt w"
  define h where "h = Suc (nxt w)"
  define w2 where "w2 = snd (alloc [(''console'', PDict [(''class'', PStr ''logging.StreamHandler''),
                           (''formatter'', PStr ''basic'')])] (snd (alloc initial_config w)))"
  define self0 where "self0 = \<lparr>self_app_name = app, self_log_dir = dir,
                  self_log_group = grp, self_default_log_level = lvl,
                  self_config = c, self_handlers = h\<rparr>"
  define F where "F = deref (heap w') (the (dict_get initial_config ''formatters''))"
  have keysF: "dict_keys F = [''default'', ''basic'', ''full'', ''db'']"
    unfolding F_def by (rule initial_config_formatters)
  have h0: "self_handlers self0 = h" by (simp add: self0_def)
  have w2: "nxt w2 = Suc (Suc (nxt w))" "heap w2 c = initial_config"
    "dict_keys (heap w2 h) = [''console'']"
    by (simp_all add: w2_def alloc_def c_def h_def dict_keys_def)
  have w2ok: "handlers_ok F (heap w2 h)"
    by (simp add: w2_def alloc_def h_def handlers_ok_def keysF dict_get_def)
  have unfold: "LogManager_init os app lvl grp dir w =
      (case (if str_truthy dir then add_file_handler os self0 ''full'' w2 else Inr w2) of
         Inl e \<Rightarrow> Inl e
       | Inr w3 \<Rightarrow>
           Inr (\<lparr>self_app_name = app, self_log_dir = dir, self_log_group = grp,
                 self_default_log_level = lvl, self_config = c, self_handlers = h,
                 self_loggers = nxt (if str_truthy grp then add_cloudwatch_handler self0 ''full'' w3 else w3)\<rparr>,
                snd (alloc [] (if str_truthy grp then add_cloudwatch_handler self0 ''full'' w3 else w3))))"
    by (cases "str_truthy dir"; cases "str_truthy grp")
       (simp_all add: LogManager_init_def alloc_def Let_def c_def h_def w2_def self0_def
          split: sum.splits)
  obtain w3 where w3: "(if str_truthy dir then add_file_handler os self0 ''full'' w2 else Inr w2) = Inr w3"
    using assms unfolding unfold
    by (cases "if str_truthy dir then add_file_handler os self0 ''full'' w2 else Inr w2") simp_all
  define w4 where "w4 = (if str_truthy grp then add_cloudwatch_handler self0 ''full'' w3 else w3)"
  have res: "self = \<lparr>self_app_name = app, self_log_dir = dir, self_log_group = grp,
                 self_default_log_level = lvl, self_config = c,
                 self_handlers = h, self_loggers = nxt w4\<rparr>"
     "w' = snd (alloc [] w4)"
    using assms w3 unfolding unfold w4_def by simp_all
  have ch: "c \<noteq> h" by (simp add: c_def h_def)
  have w3p: "nxt w3 = Suc (Suc (nxt w))" "heap w3 c = initial_config"
    "dict_keys (heap w3 h) = [''console''] @ (if str_truthy dir then [''file''] else [])"
    "handlers_ok F (heap w3 h)"
  proof -
    show "nxt w3 = Suc (Suc (nxt w))"
      using w3 w2 add_file_handler_Inr(1)[of os self0 "''full''" w2 w3]
      by (simp split: if_splits)
    show "heap w3 c = initial_config"
      using w3 w2 ch add_file_handler_Inr(2)[of os self0 "''full''" w2 w3 c]
      by (simp add: h0 split: if_splits)
    show "dict_keys (heap w3 h) = [''console''] @ (if str_truthy dir then [''file''] else [])"
      using w3 w2 add_file_handler_Inr(3)[of os self0 "''full''" w2 w3]
      by (simp add: h0 dict_keys_dict_set split: if_splits)
    show "handlers_ok F (heap w3 h)"
      using w3 w2ok add_file_handler_Inr(4)[of os self0 "''full''" w2 w3 F]
      by (simp add: h0 keysF split: if_splits)
  qed
  have w4p: "nxt w4 = Suc (Suc (nxt w))" "heap w4 c = initial_config"
    "dict_keys (heap w4 h) = [''console''] @ (if str_truthy dir then [''file''] else [])
             @ (if str_truthy grp then [''cloudwatch''] else [])"
    "handlers_ok F (heap w4 h)"
  proof -
    note cw = add_cloudwatch_handler_props [where self = self0 and f = "''full''" and w = w3, unfolded h0]
    show "nxt w4 = Suc (Suc (nxt w))"
      using w3p(1) by (simp add: w4_def cw(1))
    show "heap w4 c = initial_config"
      using w3p(2) ch by (simp add: w4_def cw(4))
    show "dict_keys (heap w4 h) = [''console''] @ (if str_truthy dir then [''file''] else [])
             @ (if str_truthy grp then [''cloudwatch''] else [])"
      using w3p(3) by (simp add: w4_def cw(5) dict_keys_dict_set)
    show "handlers_ok F (heap w4 h)"
      using w3p(4) cw(6)[of F]
      by (simp add: w4_def keysF)
  qed
  show "self = \<lparr>self_app_name = app, self_log_dir = dir, self_log_group = grp,
                 self_default_log_level = lvl, self_config = nxt w,
                 self_handlers = Suc (nxt w), self_loggers = Suc (Suc (nxt w))\<rparr>"
    using res(1) w4p(1) by (simp add: c_def h_def)
  show "nxt w' = Suc (Suc (Suc (nxt w)))"
    using res(2) w4p(1) by (simp add: alloc_def)
  show "heap w' (nxt w) = initial_config"
    using res(2) w4p(1,2) by (simp add: alloc_def c_def)
  show "heap w' (Suc (Suc (nxt w))) = []"
    using res(2) w4p(1) by (simp add: alloc_def)
  show "dict_keys (heap w' (Suc (nxt w))) =
           [''console''] @ (if str_truthy dir then [''file''] else [])
             @ (if str_truthy grp then [''cloudwatch''] else [])"
    using res(2) w4p(1,3) by (simp add: alloc_def h_def)
  have "heap w' (nxt w) = initial_config"
    using res(2) w4p(1,2) by (simp add: alloc_def c_def)
  then have "config_entry (heap w') (PRef (nxt w)) ''formatters'' = F"
    by (simp add: config_entry_def F_def initial_config_def dict_get_def)
  moreover have "heap w' (Suc (nxt w)) = heap w4 h"
    using res(2) w4p(1) by (simp add: alloc_def h_def)
  ultimately show "handlers_ok (config_entry (heap w') (PRef (nxt w)) ''formatters'') (heap w' (Suc (nxt w)))"
    using w4p(4) by simp
qed


lemma dict_get_dict_set:
  "dict_get (dict_set d k v) k' = (if k' = k then Some v else dict_get d k')"
  by (induction d) (auto simp: dict_get_def)

lemma dict_set_twice: "dict_set (dict_set d k v) k v' = dict_set d k v'"
  by (induction d) auto

lemma dict_set_same: "dict_get d k = Some v \<Longrightarrow> dict_set d k v = d"
  by (induction d) (auto simp: dict_get_def)

lemma count_dict_set:
  "distinct (dict_keys d) \<Longrightarrow> length (filter (\<lambda>(k', v'). k' = k) (dict_set d k v)) = 1"
proof (induction d)
  case Nil
  then show ?case by simp
next
  case (Cons a d)
  obtain k' v' where a: "a = (k', v')" by (cases a)
  show ?case
  proof (cases "k' = k")
    case True
    with Cons.prems a have "k \<notin> fst ` set d" by (simp add: dict_keys_def)
    then have "filter (\<lambda>(k', v'). k' = k) d = []"
      by (force simp: filter_empty_conv)
    with True a show ?thesis by simp
  next
    case False
    with Cons a show ?thesis by (simp add: dict_keys_def)
  qed
qed

lemma distinct_dict_set:
  "distinct (dict_keys d) \<Longrightarrow> distinct (dict_keys (dict_set d k v))"
  by (simp add: dict_keys_dict_set)

lemma routes_ok_dict_set:
  "routes_ok H d \<Longrightarrow> route_handlers v = Some hs \<Longrightarrow> set hs \<subseteq> set (dict_keys H) \<Longrightarrow>
   routes_ok H (dict_set d k v)"
proof -
  assume hs: "route_handlers v = Some hs" and sub: "set hs \<subseteq> set (dict_keys H)"
  from sub have ok: "list_all (\<lambda>hn. hn \<in> set (dict_keys H)) hs"
    by (auto simp: list_all_iff)
  assume "routes_ok H d"
  then show ?thesis
    using hs ok by (induction d) (auto simp: routes_ok_def)
qed

lemma names_of_PStr: "concat (map (\<lambda>v. case v of PStr s \<Rightarrow> [s] | _ \<Rightarrow> []) (map PStr ks)) = ks"
  by (induction ks) auto

lemma add_logger_props:
  shows "nxt (add_logger self n l p w) = nxt w"
    and "fs (add_logger self n l p w) = fs w"
    and "os_calls (add_logger self n l p w) = os_calls w"
    and "a \<noteq> self_loggers self \<Longrightarrow> heap (add_logger self n l p w) a = heap w a"
    and "heap (add_logger self n l p w) (self_loggers self)
           = dict_set (heap w (self_loggers self)) n
               (PDict [(''propagate'', p),
                       (''handlers'', PList (map PStr (dict_keys (heap w (self_handlers self))))),
                       (''level'', opt_str (if str_truthy l then l else self_default_log_level self))])"
  by (simp_all add: add_logger_def setitem_def)

lemma config_props:
  shows "fst (config self w) = PRef (self_config self)"
    and "nxt (snd (config self w)) = nxt w"
    and "fs (snd (config self w)) = fs w"
    and "os_calls (snd (config self w)) = os_calls w"
    and "a \<noteq> self_config self \<Longrightarrow> heap (snd (config self w)) a = heap w a"
    and "heap (snd (config self w)) (self_config self)
           = dict_set (dict_set (heap w (self_config self)) ''handlers'' (PRef (self_handlers self)))
               ''loggers'' (PRef (self_loggers self))"
  by (simp_all add: config_def setitem_def Let_def)

lemma do_call_inv:
  assumes "self_config self \<noteq> self_handlers self" "self_config self \<noteq> self_loggers self"
    "self_handlers self \<noteq> self_loggers self"
  shows "heap (do_call self c w) (self_handlers self) = heap w (self_handlers self)"
    and "dict_get (heap (do_call self c w) (self_config self)) ''formatters''
           = dict_get (heap w (self_config self)) ''formatters''"
    and "routes_ok (heap w (self_handlers self)) (heap w (self_loggers self)) \<Longrightarrow>
         routes_ok (heap w (self_handlers self)) (heap (do_call self c w) (self_loggers self))"
    and "distinct (dict_keys (heap w (self_loggers self))) \<Longrightarrow>
         distinct (dict_keys (heap (do_call self c w) (self_loggers self)))"
proof -
  show "heap (do_call self c w) (self_handlers self) = heap w (self_handlers self)"
    using assms by (cases c) (simp_all add: add_logger_props(4) config_props(5))
  show "dict_get (heap (do_call self c w) (self_config self)) ''formatters''
           = dict_get (heap w (self_config self)) ''formatters''"
    using assms by (cases c) (simp_all add: add_logger_props(4) config_props(6) dict_get_dict_set)
  show "routes_ok (heap w (self_handlers self)) (heap (do_call self c w) (self_loggers self))"
    if "routes_ok (heap w (self_handlers self)) (heap w (self_loggers self))"
    using assms that
    by (cases c)
       (auto simp: add_logger_props(5) config_props(5) dict_get_def names_of_PStr
          intro!: routes_ok_dict_set)
  show "distinct (dict_keys (heap (do_call self c w) (self_loggers self)))"
    if "distinct (dict_keys (heap w (self_loggers self)))"
    using assms that
    by (cases c) (simp_all add: add_logger_props(5) config_props(5) distinct_dict_set)
qed

lemma do_calls_inv:
  assumes "self_config self \<noteq> self_handlers self" "self_config self \<noteq> self_loggers self"
    "self_handlers self \<noteq> self_loggers self"
  shows "heap (do_calls self cs w) (self_handlers self) = heap w (self_handlers self)
       \<and> dict_get (heap (do_calls self cs w) (self_config self)) ''formatters''
           = dict_get (heap w (self_config self)) ''formatters''
       \<and> (routes_ok (heap w (self_handlers self)) (heap w (self_loggers self)) \<longrightarrow>
          routes_ok (heap w (self_handlers self)) (heap (do_calls self cs w) (self_loggers self)))
       \<and> (distinct (dict_keys (heap w (self_loggers self))) \<longrightarrow>
          distinct (dict_keys (heap (do_calls self cs w) (self_loggers self))))"
proof (induction cs arbitrary: w)
  case Nil
  show ?case by (simp add: do_calls_def)
next
  case (Cons c cs)
  have step: "do_calls self (c # cs) w = do_calls self cs (do_call self c w)"
    by (simp add: do_calls_def)
  note one = do_call_inv [OF assms, where c = c and w = w]
  note rest = Cons.IH [of "do_call self c w"]
  show ?case
    unfolding step using one rest by simp
qed

subsection \<open>Construction\<close>

text \<open>The example instance is constructed without error.\<close>

lemma example_init:
  "LogManager_init dirs_os ''svc'' (Some ''INFO'') None (Some ''/var/log/svc'') empty_world
     = Inr (example_self, example_world)"
  by (simp add: example_self_def example_world_def LogManager_init_def alloc_def Let_def
      add_file_handler_def dirs_os_def empty_world_def setitem_def)

lemma example_self:
  "example_self = \<lparr>self_app_name = ''svc'', self_log_dir = Some ''/var/log/svc'',
                    self_log_group = None, self_default_log_level = Some ''INFO'',
                    self_config = 0, self_handlers = Suc 0, self_loggers = Suc (Suc 0)\<rparr>"
  using init_result(1) [OF example_init] by (simp add: empty_world_def)

lemma example_world:
  shows "heap example_world 0 = initial_config"
    and "heap example_world (Suc 0) =
           [(''console'', PDict [(''class'', PStr ''logging.StreamHandler''),
                                 (''formatter'', PStr ''basic'')]),
            (''file'', PDict [(''class'', PStr ''logging.handlers.TimedRotatingFileHandler''),
                              (''formatter'', PStr ''full''),
                              (''filename'', PStr ''/var/log/svc/svc.log''),
                              (''when'', PStr ''midnight'')])]"
    and "heap example_world (Suc (Suc 0)) = []"
    and "fs example_world = [''/var/log/svc'']"
    and "os_calls example_world = [PathExists ''/var/log/svc'', MakeDirs ''/var/log/svc'']"
  by (simp_all add: example_world_def LogManager_init_def alloc_def Let_def
      add_file_handler_def dirs_os_def empty_world_def setitem_def os_path_join_def)

lemma init_addrs:
  assumes "LogManager_init os app lvl grp dir w = Inr (self, w')"
  shows "self_config self \<noteq> self_handlers self"
    and "self_config self \<noteq> self_loggers self"
    and "self_handlers self \<noteq> self_loggers self"
  by (simp_all add: init_result(1) [OF assms])

lemma config_entries:
  assumes "self_config self \<noteq> self_handlers self" "self_config self \<noteq> self_loggers self"
  shows "config_entry (heap (snd (config self w))) (fst (config self w)) ''handlers''
           = heap w (self_handlers self)"
    and "config_entry (heap (snd (config self w))) (fst (config self w)) ''loggers''
           = heap w (self_loggers self)"
    and "dict_get (deref (heap (snd (config self w))) (fst (config self w))) ''formatters''
           = dict_get (heap w (self_config self)) ''formatters''"
  using assms
  by (simp_all add: config_entry_def config_props dict_get_dict_set)

text \<open>
  Claim C1, as the code has it. A construction with no truthy \<open>log_dir\<close> never raises. After
  every construction that returns, the handler mapping has exactly the key \<open>console\<close>,
  then \<open>file\<close> if and only if \<open>log_dir\<close> is truthy (given and not empty), then
  \<open>cloudwatch\<close> if and only if \<open>log_group\<close> is truthy; and this mapping is what a read of
  \<open>config\<close> shows under \<open>handlers\<close>.
\<close>

theorem init_handlers:
  "(\<not> str_truthy dir \<longrightarrow> (\<exists>self w'. LogManager_init os app lvl grp dir w = Inr (self, w')))
   \<and> (\<forall>self w'. LogManager_init os app lvl grp dir w = Inr (self, w') \<longrightarrow>
         dict_keys (heap w' (self_handlers self)) =
           [''console''] @ (if str_truthy dir then [''file''] else [])
             @ (if str_truthy grp then [''cloudwatch''] else [])
         \<and> config_entry (heap (snd (config self w'))) (fst (config self w')) ''handlers''
             = heap w' (self_handlers self))"
proof (intro conjI allI impI)
  assume "\<not> str_truthy dir"
  then show "\<exists>self w'. LogManager_init os app lvl grp dir w = Inr (self, w')"
    by (simp add: LogManager_init_def alloc_def Let_def split: prod.splits)
next
  fix self w' assume init: "LogManager_init os app lvl grp dir w = Inr (self, w')"
  note r = init_result [OF init]
  show "dict_keys (heap w' (self_handlers self)) =
           [''console''] @ (if str_truthy dir then [''file''] else [])
             @ (if str_truthy grp then [''cloudwatch''] else [])"
    using r(5) by (simp add: r(1))
  show "config_entry (heap (snd (config self w'))) (fst (config self w')) ''handlers''
             = heap w' (self_handlers self)"
    by (rule config_entries(1) [OF init_addrs(1,2) [OF init]])
qed

text \<open>
  The scenario \<open>appName = "svc"\<close>, \<open>logDir = "/var/log/svc"\<close>, no log group: the handlers
  are \<open>console\<close> and \<open>file\<close>, the file handler writes to \<open>/var/log/svc/svc.log\<close>; with no
  directory either, only \<open>console\<close> exists.
\<close>

theorem init_handlers_witness:
  "handler_names (LogManager_init dirs_os ''svc'' (Some ''INFO'') None (Some ''/var/log/svc'')
                    empty_world) = Inr [''console'', ''file'']
   \<and> dict_get (heap example_world (self_handlers example_self)) ''file''
       = Some (PDict [(''class'', PStr ''logging.handlers.TimedRotatingFileHandler''),
                      (''formatter'', PStr ''full''),
                      (''filename'', PStr ''/var/log/svc/svc.log''),
                      (''when'', PStr ''midnight'')])
   \<and> handler_names (LogManager_init dirs_os ''svc'' (Some ''INFO'') None None empty_world)
       = Inr [''console'']"
proof (intro conjI)
  show "handler_names (LogManager_init dirs_os ''svc'' (Some ''INFO'') None (Some ''/var/log/svc'')
                    empty_world) = Inr [''console'', ''file'']"
    using init_handlers [of "Some ''/var/log/svc''" dirs_os "''svc''" "Some ''INFO''" None empty_world]
      example_init
    by (simp add: handler_names_def)
  show "dict_get (heap example_world (self_handlers example_self)) ''file''
       = Some (PDict [(''class'', PStr ''logging.handlers.TimedRotatingFileHandler''),
                      (''formatter'', PStr ''full''),
                      (''filename'', PStr ''/var/log/svc/svc.log''),
                      (''when'', PStr ''midnight'')])"
    by (simp add: example_self example_world dict_get_def)
  obtain self w' where i: "LogManager_init dirs_os ''svc'' (Some ''INFO'') None None empty_world = Inr (self, w')"
    using init_handlers [of None dirs_os "''svc''" "Some ''INFO''" None empty_world] by auto
  show "handler_names (LogManager_init dirs_os ''svc'' (Some ''INFO'') None None empty_world)
       = Inr [''console'']"
    using init_handlers [of None dirs_os "''svc''" "Some ''INFO''" None empty_world] i
    by (simp add: handler_names_def)
qed

text \<open>
  Claim C1 as stated ties the \<open>file\<close> handler to \<open>log_dir\<close> being given, and the remote
  handler to \<open>log_group\<close> being given. Constructed with \<open>log_dir = ""\<close>, the argument is
  given and the mapping has no \<open>file\<close> handler; with \<open>log_group = ""\<close> it has no
  \<open>cloudwatch\<close> handler: \<open>__init__\<close> tests the truth value of the two arguments.
\<close>

theorem empty_destination_counterexample:
  "handler_names (LogManager_init dirs_os ''svc'' (Some ''INFO'') None (Some '''') empty_world)
     = Inr [''console'']
   \<and> handler_names (LogManager_init dirs_os ''svc'' (Some ''INFO'') (Some '''') None empty_world)
     = Inr [''console'']"
  by (simp add: handler_names_def LogManager_init_def alloc_def Let_def dict_keys_def)

text \<open>
  Claim C9. A construction with \<open>log_dir = ""\<close> gives what the construction with
  \<open>log_dir = None\<close> gives, the stored attribute apart: it returns, it makes no call to the
  operating system (no test for the directory, no creation) and the file system is the
  one before, and there is no \<open>file\<close> handler. A construction with \<open>log_group = ""\<close> gives
  what the one with \<open>log_group = None\<close> gives, the stored attribute apart, and has no
  \<open>cloudwatch\<close> handler. The empty string is the only string that is false.
\<close>

theorem falsy_destination_as_absent:
  "LogManager_init os app lvl grp (Some '''') w
     = map_sum id (\<lambda>(self, w'). (self\<lparr>self_log_dir := Some ''''\<rparr>, w'))
         (LogManager_init os app lvl grp None w)
   \<and> (\<exists>self w'. LogManager_init os app lvl grp (Some '''') w = Inr (self, w')
         \<and> fs w' = fs w \<and> os_calls w' = os_calls w
         \<and> ''file'' \<notin> set (dict_keys (heap w' (self_handlers self))))
   \<and> LogManager_init os app lvl (Some '''') dir w
     = map_sum id (\<lambda>(self, w'). (self\<lparr>self_log_group := Some ''''\<rparr>, w'))
         (LogManager_init os app lvl None dir w)
   \<and> (\<forall>self w'. LogManager_init os app lvl (Some '''') dir w = Inr (self, w') \<longrightarrow>
         ''cloudwatch'' \<notin> set (dict_keys (heap w' (self_handlers self))))"
proof (intro conjI allI impI)
  show "LogManager_init os app lvl grp (Some '''') w
     = map_sum id (\<lambda>(self, w'). (self\<lparr>self_log_dir := Some ''''\<rparr>, w'))
         (LogManager_init os app lvl grp None w)"
    by (simp add: LogManager_init_def alloc_def Let_def add_cloudwatch_handler_def
        split: prod.splits)
  show "LogManager_init os app lvl (Some '''') dir w
     = map_sum id (\<lambda>(self, w'). (self\<lparr>self_log_group := Some ''''\<rparr>, w'))
         (LogManager_init os app lvl None dir w)"
    by (cases "str_truthy dir")
       (simp_all add: LogManager_init_def alloc_def Let_def add_file_handler_def setitem_def
          split: prod.splits sum.splits option.splits)
  obtain self w' where i: "LogManager_init os app lvl grp (Some '''') w = Inr (self, w')"
    by (simp add: LogManager_init_def alloc_def Let_def split: prod.splits)
  have "fs w' = fs w \<and> os_calls w' = os_calls w"
    using i
    by (cases "str_truthy grp")
       (auto simp: LogManager_init_def alloc_def Let_def add_cloudwatch_handler_props(2,3)
          split: prod.splits)
  moreover have "''file'' \<notin> set (dict_keys (heap w' (self_handlers self)))"
    using init_result(5) [OF i] by (simp add: init_result(1) [OF i])
  ultimately show "\<exists>self w'. LogManager_init os app lvl grp (Some '''') w = Inr (self, w')
         \<and> fs w' = fs w \<and> os_calls w' = os_calls w
         \<and> ''file'' \<notin> set (dict_keys (heap w' (self_handlers self)))"
    using i by blast
next
  fix self w' assume i: "LogManager_init os app lvl (Some '''') dir w = Inr (self, w')"
  show "''cloudwatch'' \<notin> set (dict_keys (heap w' (self_handlers self)))"
    using init_result(5) [OF i] by (simp add: init_result(1) [OF i])
qed

text \<open>Both destinations empty: only \<open>console\<close>, no directory made and no system call.\<close>

theorem falsy_destination_as_absent_witness:
  "handler_names (LogManager_init dirs_os ''svc'' (Some ''INFO'') (Some '''') (Some '''') empty_world)
     = Inr [''console'']
   \<and> map_sum id (\<lambda>(self, w'). (fs w', os_calls w'))
       (LogManager_init dirs_os ''svc'' (Some ''INFO'') (Some '''') (Some '''') empty_world)
     = Inr ([], [])"
  using falsy_destination_as_absent
    [of dirs_os "''svc''" "Some ''INFO''" "Some ''''" empty_world "Some ''''"]
  by (simp add: handler_names_def LogManager_init_def alloc_def Let_def dict_keys_def
      empty_world_def)

subsection \<open>States reached by calls on an instance\<close>

text \<open>
  After any sequence of \<open>add_logger\<close> calls and \<open>config\<close> reads on a constructed instance,
  the handler mapping is the one of the construction, the formatters are the initial
  ones, every route lists handlers of that mapping, and no logger name occurs twice.
\<close>

lemma reached:
  assumes "LogManager_init os app lvl grp dir w0 = Inr (self, w1)"
  shows "heap (do_calls self cs w1) (self_handlers self) = heap w1 (self_handlers self)"
    and "dict_get (heap (do_calls self cs w1) (self_config self)) ''formatters''
           = dict_get initial_config ''formatters''"
    and "routes_ok (heap w1 (self_handlers self)) (heap (do_calls self cs w1) (self_loggers self))"
    and "distinct (dict_keys (heap (do_calls self cs w1) (self_loggers self)))"
proof -
  note r = init_result [OF assms]
  note a = init_addrs [OF assms]
  note inv = do_calls_inv [OF a, of cs w1]
  have l: "heap w1 (self_loggers self) = []" and c: "heap w1 (self_config self) = initial_config"
    using r(3,4) by (simp_all add: r(1))
  show "heap (do_calls self cs w1) (self_handlers self) = heap w1 (self_handlers self)"
    using inv by simp
  show "dict_get (heap (do_calls self cs w1) (self_config self)) ''formatters''
           = dict_get initial_config ''formatters''"
    using inv c by simp
  show "routes_ok (heap w1 (self_handlers self)) (heap (do_calls self cs w1) (self_loggers self))"
    using inv l by (simp add: routes_ok_def)
  show "distinct (dict_keys (heap (do_calls self cs w1) (self_loggers self)))"
    using inv l by (simp add: dict_keys_def)
qed

text \<open>
  Claim C5. In every state reached from a construction, two \<open>add_logger\<close> calls with the
  same name leave the state that the second call alone leaves: the route mapping has
  exactly one entry for the name, and that entry holds the \<open>propagate\<close> value of the
  second call, the handler names, and the level of the second call (its \<open>level\<close>
  argument when that is truthy, the default level of the instance otherwise). Nothing of
  the first call remains.
\<close>

theorem add_logger_twice:
  assumes "LogManager_init os app lvl grp dir w0 = Inr (self, w1)"
    and "w = do_calls self cs w1"
  shows "add_logger self name l2 p2 (add_logger self name l1 p1 w) = add_logger self name l2 p2 w
    \<and> length (filter (\<lambda>(k, v). k = name)
         (heap (add_logger self name l2 p2 (add_logger self name l1 p1 w)) (self_loggers self))) = 1
    \<and> dict_get (heap (add_logger self name l2 p2 (add_logger self name l1 p1 w)) (self_loggers self))
         name
       = Some (PDict [(''propagate'', p2),
                      (''handlers'', PList (map PStr (dict_keys (heap w (self_handlers self))))),
                      (''level'', opt_str (if str_truthy l2 then l2 else lvl))])"
proof -
  note a = init_addrs [OF assms(1)]
  have lvl: "self_default_log_level self = lvl"
    by (simp add: init_result(1) [OF assms(1)])
  have d: "distinct (dict_keys (heap w (self_loggers self)))"
    unfolding assms(2) by (rule reached(4) [OF assms(1)])
  have eq: "add_logger self name l2 p2 (add_logger self name l1 p1 w) = add_logger self name l2 p2 w"
    using a(3) by (simp add: add_logger_def setitem_def dict_set_twice)
  have h: "heap (add_logger self name l2 p2 w) (self_loggers self)
      = dict_set (heap w (self_loggers self)) name
          (PDict [(''propagate'', p2),
                  (''handlers'', PList (map PStr (dict_keys (heap w (self_handlers self))))),
                  (''level'', opt_str (if str_truthy l2 then l2 else lvl))])"
    by (simp add: add_logger_props(5) lvl)
  show ?thesis
    unfolding eq h using d by (simp add: count_dict_set dict_get_dict_set)
qed

text \<open>
  \<open>add_logger("x")\<close> followed by \<open>add_logger("x", level="DEBUG", propagate=True)\<close> on the
  example instance.
\<close>

theorem add_logger_twice_witness:
  "heap (add_logger example_self ''x'' (Some ''DEBUG'') (PBool True)
           (add_logger example_self ''x'' None (PBool False) example_world))
     (self_loggers example_self)
   = [(''x'', PDict [(''propagate'', PBool True),
                     (''handlers'', PList [PStr ''console'', PStr ''file'']),
                     (''level'', PStr ''DEBUG'')])]"
  using add_logger_twice [OF example_init, of example_world "[]" "''x''" "Some ''DEBUG''" "PBool True"
      None "PBool False"]
  by (simp add: do_calls_def add_logger_def setitem_def example_self example_world dict_keys_def)

end
